theory Spec2Isabelle
  imports Complex_Main
begin

section \<open>Python values, exceptions and the operations the handler uses\<close>

text \<open>
  The Lambda event and the decoded request body are JSON documents, so a Python value
  that the handler inspects dynamically is a \<open>json\<close>; a dict is an association list
  whose first binding of a key is the dict's entry. A \<open>string\<close> is the UTF-8 text.
  Floats are read as reals.
\<close>

datatype json =
    JNull
  | JBool bool
  | JInt int
  | JFloat real
  | JStr string
  | JArr "json list"
  | JObj "(string \<times> json) list"

text \<open>
  Exceptions that \<open>except Exception\<close> catches, each with the text of \<open>str(e)\<close>.
  \<open>FileNotFoundError\<close> is the only class the source tells apart.
\<close>

datatype exn =
    FileNotFoundError string
  | AttributeError string
  | TypeError string
  | IndexError string
  | Exception string

fun str_exn :: "exn \<Rightarrow> string" where
  "str_exn (FileNotFoundError m) = m"
| "str_exn (AttributeError m) = m"
| "str_exn (TypeError m) = m"
| "str_exn (IndexError m) = m"
| "str_exn (Exception m) = m"

definition quote :: string where
  "quote = [CHR 0x27]"

definition newline :: string where
  "newline = [CHR 0x0A]"

fun type_name :: "json \<Rightarrow> string" where
  "type_name JNull = ''NoneType''"
| "type_name (JBool b) = ''bool''"
| "type_name (JInt i) = ''int''"
| "type_name (JFloat x) = ''float''"
| "type_name (JStr s) = ''str''"
| "type_name (JArr vs) = ''list''"
| "type_name (JObj d) = ''dict''"

text \<open>Python truthiness: what \<open>not v\<close> and \<open>a or b\<close> test.\<close>

fun truthy :: "json \<Rightarrow> bool" where
  "truthy JNull = False"
| "truthy (JBool b) = b"
| "truthy (JInt i) = (i \<noteq> 0)"
| "truthy (JFloat x) = (x \<noteq> 0)"
| "truthy (JStr s) = (s \<noteq> [])"
| "truthy (JArr vs) = (vs \<noteq> [])"
| "truthy (JObj d) = (d \<noteq> [])"

definition or_else :: "json \<Rightarrow> json \<Rightarrow> json" where
  "or_else a b = (if truthy a then a else b)"

text \<open>\<open>d.get(k, dflt)\<close> on a dict.\<close>

definition dict_get :: "(string \<times> json) list \<Rightarrow> string \<Rightarrow> json \<Rightarrow> json" where
  "dict_get d k dflt = (case map_of d k of Some v \<Rightarrow> v | None \<Rightarrow> dflt)"

text \<open>\<open>v.get(k, dflt)\<close> on any value: only a dict has the method.\<close>

fun py_get :: "json \<Rightarrow> string \<Rightarrow> json \<Rightarrow> exn + json" where
  "py_get (JObj d) k dflt = Inr (dict_get d k dflt)"
| "py_get v k dflt =
     Inl (AttributeError (quote @ type_name v @ quote @ '' object has no attribute ''
                          @ quote @ ''get'' @ quote))"

text \<open>\<open>needle in hay\<close> on two strings.\<close>

fun str_contains :: "string \<Rightarrow> string \<Rightarrow> bool" where
  "str_contains needle [] = (needle = [])"
| "str_contains needle (c # cs) =
     (take (length needle) (c # cs) = needle \<or> str_contains needle cs)"

text \<open>
  \<open>x in v\<close> for a string \<open>x\<close>: substring test on a string, element test on a list,
  key test on a dict, \<open>TypeError\<close> on the values that are not containers.
\<close>

fun py_in :: "string \<Rightarrow> json \<Rightarrow> exn + bool" where
  "py_in x (JStr s) = Inr (str_contains x s)"
| "py_in x (JArr vs) = Inr (JStr x \<in> set vs)"
| "py_in x (JObj d) = Inr (x \<in> set (map fst d))"
| "py_in x v =
     Inl (TypeError (''argument of type '' @ quote @ type_name v @ quote @ '' is not iterable''))"

text \<open>\<open>str.lower()\<close>: the letters A to Z; every other byte stays.\<close>

definition char_lower :: "char \<Rightarrow> char" where
  "char_lower c =
     (if 65 \<le> (of_char c :: nat) \<and> (of_char c :: nat) \<le> 90
      then char_of ((of_char c :: nat) + 32) else c)"

definition lower :: "string \<Rightarrow> string" where
  "lower s = map char_lower s"

text \<open>\<open>s.split(sep)\<close> for a one-character separator.\<close>

fun split :: "char \<Rightarrow> string \<Rightarrow> string list" where
  "split sep [] = [[]]"
| "split sep (c # cs) =
     (if c = sep then [] # split sep cs
      else (case split sep cs of [] \<Rightarrow> [[c]] | p # ps \<Rightarrow> (c # p) # ps))"

text \<open>\<open>xs[-1]\<close>: the last element, \<open>IndexError\<close> on the empty list.\<close>

definition index_last :: "'a list \<Rightarrow> exn + 'a" where
  "index_last xs =
     (case xs of [] \<Rightarrow> Inl (IndexError ''list index out of range'') | _ \<Rightarrow> Inr (last xs))"

text \<open>\<open>sep.join(xs)\<close>.\<close>

fun join :: "string \<Rightarrow> string list \<Rightarrow> string" where
  "join sep [] = []"
| "join sep [x] = x"
| "join sep (x # y # ys) = x @ sep @ join sep (y # ys)"

text \<open>\<open>str(n)\<close> for the loop index.\<close>

fun str_nat :: "nat \<Rightarrow> string" where
  "str_nat n =
     (if n < 10 then [char_of (48 + n)]
      else str_nat (n div 10) @ [char_of (48 + n mod 10)])"

declare str_nat.simps [simp del]

section \<open>Data model\<close>

text \<open>An entry of \<open>_retrieved_sources\<close>, with the four keys the tool stores.\<close>

record passage =
  content :: string
  score :: real
  source :: string
  documentName :: string

text \<open>
  The answer of the knowledge-base \<open>retrieve\<close> call, in the shape the SDK documents;
  an absent key is \<open>None\<close>.
\<close>

record content_dict =
  content_text :: "string option"

record s3_location_dict =
  s3_uri :: "string option"

record location_dict =
  s3Location :: "s3_location_dict option"

record retrieval_result =
  result_content :: "content_dict option"
  result_score :: "real option"
  result_location :: "location_dict option"

record retrieve_response =
  retrievalResults :: "retrieval_result list option"

text \<open>\<open>StudyBuddyResponse\<close>, the structured output of one agent invocation.\<close>

record study_buddy_response =
  response :: string
  relevant_material_id :: "string option"

text \<open>
  One run of the agent: it finishes with a structured output, raises, or calls the
  retrieval tool with a query and goes on from the text the tool returned. The language
  model decides the queries and the output; the tool is the only callable it is given.
\<close>

datatype agent_run =
    Finish study_buddy_response
  | Raise exn
  | UseTool string "string \<Rightarrow> agent_run"

record session_manager_config =
  sm_session_id :: json
  sm_bucket :: string
  sm_prefix :: string
  sm_region_name :: string

record agent_config =
  model_id :: string
  region_name :: string
  temperature :: real
  system_prompt :: string
  session_manager :: "session_manager_config option"
  window_size :: nat
  should_truncate_results :: bool

text \<open>
  The module's constants read from the environment, and the library calls the module
  makes: the knowledge-base search (knowledge-base id, query text, number of results), the
  \<open>.2f\<close> float format, \<open>json.loads\<close>, reading the bundled \<open>materials.json\<close>, and the agent
  constructors, which give a constructed agent as the run it makes of a message.
\<close>

record env =
  KNOWLEDGE_BASE_ID :: string
  SESSION_BUCKET :: string
  AWS_REGION :: string
  SOCRATIC_SYSTEM_PROMPT :: string
  retrieve :: "string \<Rightarrow> string \<Rightarrow> nat \<Rightarrow> exn + retrieve_response"
  format_2f :: "real \<Rightarrow> string"
  json_loads :: "string \<Rightarrow> exn + json"
  open_materials :: "exn + string"
  Agent :: "agent_config \<Rightarrow> exn + (json \<Rightarrow> agent_run)"

text \<open>A response body is \<open>json.dumps\<close> of a value, or a plain text.\<close>

datatype body = json_dumps json | Text string

record http_response =
  statusCode :: nat
  headers :: "(string \<times> string) list"
  body :: body

section \<open>The retrieval tool\<close>

definition document_name :: "string \<Rightarrow> exn + string" where
  "document_name source_uri =
     (if CHR ''/'' \<in> set source_uri then index_last (split (CHR ''/'') source_uri)
      else Inr source_uri)"

text \<open>
  The loop over \<open>enumerate(results, 1)\<close>: the shared list and the formatted sections
  grow by one entry per result.
\<close>

fun results_loop ::
  "env \<Rightarrow> nat \<Rightarrow> retrieval_result list \<Rightarrow> passage list \<Rightarrow> string list
     \<Rightarrow> (exn + string list) \<times> passage list" where
  "results_loop env idx [] srcs formatted_results = (Inr formatted_results, srcs)"
| "results_loop env idx (result # rest) srcs formatted_results =
     (let content_v =
            (case result_content result of None \<Rightarrow> []
             | Some c \<Rightarrow> (case content_text c of None \<Rightarrow> [] | Some t \<Rightarrow> t));
          score_v = (case result_score result of None \<Rightarrow> 0 | Some x \<Rightarrow> x);
          source_uri =
            (case result_location result of None \<Rightarrow> ''Unknown source''
             | Some l \<Rightarrow>
                (case s3Location l of None \<Rightarrow> ''Unknown source''
                 | Some s3 \<Rightarrow> (case s3_uri s3 of None \<Rightarrow> ''Unknown source'' | Some u \<Rightarrow> u)))
      in case document_name source_uri of
           Inl e \<Rightarrow> (Inl e, srcs)
         | Inr dn \<Rightarrow>
             results_loop env (idx + 1) rest
               (srcs @ [\<lparr>content = content_v, score = score_v, source = source_uri,
                         documentName = dn\<rparr>])
               (formatted_results @
                  [''[Source '' @ str_nat idx @ ''] (Relevance: '' @ format_2f env score_v
                   @ '')'' @ newline @ content_v @ newline @ ''From: '' @ dn @ newline]))"

definition retrieve_study_materials ::
  "env \<Rightarrow> string \<Rightarrow> passage list \<Rightarrow> string \<times> passage list" where
  "retrieve_study_materials env query srcs =
     (if KNOWLEDGE_BASE_ID env = []
      then (''Error: Knowledge Base not configured. Please set KNOWLEDGE_BASE_ID environment variable.'',
            srcs)
      else
        (case retrieve env (KNOWLEDGE_BASE_ID env) query 5 of
           Inl e \<Rightarrow> (''Error retrieving from knowledge base: '' @ str_exn e, [])
         | Inr resp \<Rightarrow>
             (let results = (case retrievalResults resp of None \<Rightarrow> [] | Some rs \<Rightarrow> rs)
              in if results = []
                 then (''No relevant information found in the study materials for this query.'', [])
                 else
                   (case results_loop env 1 results [] [] of
                      (Inl e, srcs') \<Rightarrow>
                        (''Error retrieving from knowledge base: '' @ str_exn e, [])
                    | (Inr formatted_results, srcs') \<Rightarrow>
                        (join (newline @ ''---'' @ newline) formatted_results, srcs')))))"

section \<open>The agent\<close>

definition create_study_buddy_agent :: "env \<Rightarrow> json \<Rightarrow> exn + (json \<Rightarrow> agent_run)" where
  "create_study_buddy_agent env session_id =
     Agent env
       \<lparr>model_id = ''us.anthropic.claude-3-5-haiku-20241022-v1:0'',
        region_name = AWS_REGION env,
        temperature = 7 / 10,
        system_prompt = SOCRATIC_SYSTEM_PROMPT env,
        session_manager =
          (if SESSION_BUCKET env \<noteq> []
           then Some \<lparr>sm_session_id = session_id, sm_bucket = SESSION_BUCKET env,
                      sm_prefix = ''study-buddy-sessions/'', sm_region_name = AWS_REGION env\<rparr>
           else None),
        window_size = 20,
        should_truncate_results = True\<rparr>"

text \<open>
  Running the agent threads the shared list through every call the run makes to
  \<open>retrieve_study_materials\<close>.
\<close>

primrec run_agent ::
  "env \<Rightarrow> agent_run \<Rightarrow> passage list \<Rightarrow> (exn + study_buddy_response) \<times> passage list" where
  "run_agent env (Finish out) = (\<lambda>srcs. (Inr out, srcs))"
| "run_agent env (Raise e) = (\<lambda>srcs. (Inl e, srcs))"
| "run_agent env (UseTool query k) =
     (\<lambda>srcs. case retrieve_study_materials env query srcs of
                (tool_result, srcs') \<Rightarrow> run_agent env (k tool_result) srcs')"

section \<open>Response shaping\<close>

definition valid_ids :: "string set" where
  "valid_ids = {''photosynthesis'', ''cell_respiration'', ''mitosis''}"

definition validate_material_id :: "string option \<Rightarrow> string option" where
  "validate_material_id material_id =
     (case material_id of
        None \<Rightarrow> None
      | Some m \<Rightarrow> (if m \<in> valid_ids then Some m else None))"

definition json_headers :: "(string \<times> string) list" where
  "json_headers =
     [(''Content-Type'', ''application/json''), (''Access-Control-Allow-Origin'', ''*'')]"

definition get_materials_handler :: "env \<Rightarrow> http_response" where
  "get_materials_handler env =
     (case (case open_materials env of Inl e \<Rightarrow> Inl e | Inr txt \<Rightarrow> json_loads env txt) of
        Inr materials \<Rightarrow>
          \<lparr>statusCode = 200, headers = json_headers, body = json_dumps materials\<rparr>
      | Inl (FileNotFoundError m) \<Rightarrow>
          \<lparr>statusCode = 404, headers = json_headers,
           body = json_dumps (JObj [(''error'', JStr ''Materials file not found'')])\<rparr>
      | Inl e \<Rightarrow>
          \<lparr>statusCode = 500, headers = json_headers,
           body = json_dumps (JObj [(''error'', JStr (''Error loading materials: '' @ str_exn e))])\<rparr>)"

section \<open>The handler\<close>

type_synonym event = "(string \<times> json) list"

definition get_path :: "event \<Rightarrow> json" where
  "get_path ev = or_else (dict_get ev ''rawPath'' JNull) (dict_get ev ''path'' (JStr []))"

definition get_method :: "event \<Rightarrow> exn + json" where
  "get_method ev =
     (case py_get (dict_get ev ''requestContext'' (JObj [])) ''http'' (JObj []) of
        Inl e \<Rightarrow> Inl e
      | Inr http \<Rightarrow>
          (case py_get http ''method'' JNull of
             Inl e \<Rightarrow> Inl e
           | Inr m \<Rightarrow> Inr (or_else m (dict_get ev ''httpMethod'' (JStr [])))))"

definition options_response :: http_response where
  "options_response =
     \<lparr>statusCode = 200,
      headers = [(''Access-Control-Allow-Origin'', ''*''),
                 (''Access-Control-Allow-Methods'', ''GET, POST, OPTIONS''),
                 (''Access-Control-Allow-Headers'', ''Content-Type''),
                 (''Access-Control-Max-Age'', ''86400'')],
      body = Text []\<rparr>"

definition error_response :: "nat \<Rightarrow> string \<Rightarrow> http_response" where
  "error_response code msg =
     \<lparr>statusCode = code, headers = json_headers,
      body = json_dumps (JObj [(''error'', JStr msg)])\<rparr>"

text \<open>The first lines of the \<open>try\<close> block: the request mapping, then message and session id.\<close>

definition parse_body :: "env \<Rightarrow> event \<Rightarrow> exn + json" where
  "parse_body env ev =
     (case dict_get ev ''body'' JNull of
        JStr txt \<Rightarrow> json_loads env txt
      | _ \<Rightarrow> Inr (dict_get ev ''body'' (JObj ev)))"

definition parse_request :: "env \<Rightarrow> event \<Rightarrow> exn + (json \<times> json)" where
  "parse_request env ev =
     (case parse_body env ev of
        Inl e \<Rightarrow> Inl e
      | Inr b \<Rightarrow>
          (case py_get b ''message'' (JStr []) of
             Inl e \<Rightarrow> Inl e
           | Inr message \<Rightarrow>
               (case py_get b ''sessionId'' (JStr ''default-session'') of
                  Inl e \<Rightarrow> Inl e
                | Inr session_id \<Rightarrow> Inr (message, session_id))))"

definition passage_json :: "passage \<Rightarrow> json" where
  "passage_json p =
     JObj [(''content'', JStr (content p)), (''score'', JFloat (score p)),
           (''source'', JStr (source p)), (''documentName'', JStr (documentName p))]"

definition filter_sources :: "passage list \<Rightarrow> passage list" where
  "filter_sources srcs =
     filter (\<lambda>src. \<not> str_contains ''materials.json'' (lower (documentName src))) srcs"

definition material_json :: "string option \<Rightarrow> json" where
  "material_json m = (case m of None \<Rightarrow> JNull | Some s \<Rightarrow> JStr s)"

definition success_response ::
  "study_buddy_response \<Rightarrow> json \<Rightarrow> passage list \<Rightarrow> http_response" where
  "success_response structured_response session_id srcs =
     (let filtered_sources = filter_sources srcs;
          validated_material_id = validate_material_id (relevant_material_id structured_response);
          response_data =
            [(''response'', JStr (response structured_response)),
             (''sessionId'', session_id),
             (''relevantMaterialId'', material_json validated_material_id)]
            @ (if filtered_sources \<noteq> []
               then [(''sources'', JArr (map passage_json filtered_sources))] else [])
      in \<lparr>statusCode = 200, headers = json_headers, body = json_dumps (JObj response_data)\<rparr>)"

text \<open>
  The \<open>try\<close> block of \<open>handler\<close> with its \<open>except\<close> clause: every exception becomes
  the status-500 response, and the shared list stays as the failing step left it.
\<close>

definition chat :: "env \<Rightarrow> event \<Rightarrow> passage list \<Rightarrow> http_response \<times> passage list" where
  "chat env ev srcs =
     (case parse_request env ev of
        Inl e \<Rightarrow> (error_response 500 (''Internal server error: '' @ str_exn e), srcs)
      | Inr (message, session_id) \<Rightarrow>
          if \<not> truthy message then (error_response 400 ''Message is required'', srcs)
          else
            (let srcs0 = [] in
             case create_study_buddy_agent env session_id of
               Inl e \<Rightarrow> (error_response 500 (''Internal server error: '' @ str_exn e), srcs0)
             | Inr agent \<Rightarrow>
                 (case run_agent env (agent message) srcs0 of
                    (Inl e, srcs1) \<Rightarrow>
                      (error_response 500 (''Internal server error: '' @ str_exn e), srcs1)
                  | (Inr structured_response, srcs1) \<Rightarrow>
                      (success_response structured_response session_id srcs1, srcs1))))"

text \<open>
  \<open>handler\<close>: the routing happens before the \<open>try\<close>, so an exception there leaves the
  function (\<open>Inl\<close>). The second component is \<open>_retrieved_sources\<close> afterwards.
\<close>

definition handler :: "env \<Rightarrow> event \<Rightarrow> passage list \<Rightarrow> (exn + http_response) \<times> passage list" where
  "handler env ev srcs =
     (let path = get_path ev in
      case get_method ev of
        Inl e \<Rightarrow> (Inl e, srcs)
      | Inr method \<Rightarrow>
          (case py_in ''/materials'' path of
             Inl e \<Rightarrow> (Inl e, srcs)
           | Inr in_path \<Rightarrow>
               if in_path \<and> method = JStr ''GET'' then (Inr (get_materials_handler env), srcs)
               else if method = JStr ''OPTIONS'' then (Inr options_response, srcs)
               else (case chat env ev srcs of (r, srcs') \<Rightarrow> (Inr r, srcs'))))"

section \<open>Notions the statements use\<close>

text \<open>
  The event reaches the chat flow: the routing raises nothing, and neither the materials
  branch nor the preflight branch takes the request.
\<close>

definition routes_to_chat :: "event \<Rightarrow> bool" where
  "routes_to_chat ev =
     (case get_method ev of
        Inl e \<Rightarrow> False
      | Inr method \<Rightarrow>
          (case py_in ''/materials'' (get_path ev) of
             Inl e \<Rightarrow> False
           | Inr in_path \<Rightarrow> \<not> (in_path \<and> method = JStr ''GET'') \<and> method \<noteq> JStr ''OPTIONS''))"

text \<open>
  In the spec's words: the document name is the substring of the source URI after the last
  separator, or the whole URI when it has none.
\<close>

fun after_last :: "char \<Rightarrow> string \<Rightarrow> string" where
  "after_last sep [] = []"
| "after_last sep (c # cs) =
     (if sep \<in> set cs then after_last sep cs else if c = sep then cs else c # cs)"

text \<open>
  In the spec's words: the passage one search result contributes, with the text (empty
  when missing), the score (0 when missing), the source URI and the derived document name.
\<close>

definition source_uri_of :: "retrieval_result \<Rightarrow> string" where
  "source_uri_of r =
     (case result_location r of
        None \<Rightarrow> ''Unknown source''
      | Some l \<Rightarrow>
          (case s3Location l of
             None \<Rightarrow> ''Unknown source''
           | Some s3 \<Rightarrow> (case s3_uri s3 of None \<Rightarrow> ''Unknown source'' | Some u \<Rightarrow> u)))"

definition passage_of :: "retrieval_result \<Rightarrow> passage" where
  "passage_of r =
     \<lparr>content =
        (case result_content r of None \<Rightarrow> []
         | Some c \<Rightarrow> (case content_text c of None \<Rightarrow> [] | Some t \<Rightarrow> t)),
      score = (case result_score r of None \<Rightarrow> 0 | Some x \<Rightarrow> x),
      source = source_uri_of r,
      documentName = after_last (CHR ''/'') (source_uri_of r)\<rparr>"

text \<open>
  In the spec's words: \<open>hay\<close> contains \<open>needle\<close> as a case-insensitive substring.
\<close>

definition contains_ci :: "string \<Rightarrow> string \<Rightarrow> bool" where
  "contains_ci needle hay =
     (\<exists>pre mid post. hay = pre @ mid @ post \<and> lower mid = lower needle)"

text \<open>
  The passage was built from a result of a knowledge-base search made with this
  environment's identifier.
\<close>

definition from_search :: "env \<Rightarrow> passage \<Rightarrow> bool" where
  "from_search env p =
     (\<exists>query resp rs. retrieve env (KNOWLEDGE_BASE_ID env) query 5 = Inr resp
        \<and> retrievalResults resp = Some rs \<and> p \<in> set (map passage_of rs))"

text \<open>
  The values \<open>_retrieved_sources\<close> can take in a process whose module constants and
  library calls are \<open>env\<close>: the list is empty when the module is loaded, and it changes
  only when \<open>handler\<close> is invoked or when the agent calls the retrieval tool.
\<close>

inductive reachable :: "env \<Rightarrow> passage list \<Rightarrow> bool" for env :: env where
  loaded: "reachable env []"
| invoked: "reachable env srcs \<Longrightarrow> reachable env (snd (handler env ev srcs))"
| tool_called:
    "reachable env srcs \<Longrightarrow> reachable env (snd (retrieve_study_materials env query srcs))"

section \<open>A concrete environment and concrete events\<close>

definition dquote :: string where
  "dquote = [CHR 0x22]"

definition example_body_text :: string where
  "example_body_text =
     ''{'' @ dquote @ ''message'' @ dquote @ '': '' @ dquote @ ''What is mitosis?'' @ dquote @ ''}''"

definition example_catalog_text :: string where
  "example_catalog_text =
     ''{'' @ dquote @ ''topics'' @ dquote @ '': ['' @ dquote @ ''photosynthesis'' @ dquote
     @ '', '' @ dquote @ ''mitosis'' @ dquote @ '']}''"

definition example_catalog :: json where
  "example_catalog = JObj [(''topics'', JArr [JStr ''photosynthesis'', JStr ''mitosis''])]"

definition example_results :: "retrieval_result list" where
  "example_results =
     [\<lparr>result_content = Some \<lparr>content_text = Some ''Mitosis has four phases.''\<rparr>,
       result_score = Some (3 / 4),
       result_location = Some \<lparr>s3Location = Some \<lparr>s3_uri = Some ''s3://study/docs/mitosis.pdf''\<rparr>\<rparr>\<rparr>,
      \<lparr>result_content = Some \<lparr>content_text = Some ''topic list''\<rparr>,
       result_score = None,
       result_location = Some \<lparr>s3Location = Some \<lparr>s3_uri = Some ''s3://study/Materials.JSON''\<rparr>\<rparr>\<rparr>,
      \<lparr>result_content = None,
       result_score = Some (1 / 2),
       result_location = None\<rparr>]"

definition example_output :: study_buddy_response where
  "example_output =
     \<lparr>response = ''Mitosis has four phases.'', relevant_material_id = Some ''meiosis''\<rparr>"

definition example_agent :: "json \<Rightarrow> agent_run" where
  "example_agent message = UseTool ''mitosis phases'' (\<lambda>tool_result. Finish example_output)"

definition example_env :: env where
  "example_env =
     \<lparr>KNOWLEDGE_BASE_ID = ''KB1'',
      SESSION_BUCKET = [],
      AWS_REGION = ''us-east-1'',
      SOCRATIC_SYSTEM_PROMPT = ''You are an adaptive Study Buddy assistant'',
      retrieve = (\<lambda>kb query n. Inr \<lparr>retrievalResults = Some example_results\<rparr>),
      format_2f = (\<lambda>x. ''0.75''),
      json_loads =
        (\<lambda>txt. if txt = example_body_text
               then Inr (JObj [(''message'', JStr ''What is mitosis?'')])
               else if txt = example_catalog_text then Inr example_catalog
               else Inl (Exception ''Expecting value'')),
      open_materials = Inr example_catalog_text,
      Agent = (\<lambda>cfg. Inr example_agent)\<rparr>"

definition flaky_env :: env where
  "flaky_env =
     example_env
       \<lparr>retrieve :=
          (\<lambda>kb query n.
             if query = ''mitosis phases'' then Inr \<lparr>retrievalResults = Some example_results\<rparr>
             else if query = ''quantum gravity'' then Inr \<lparr>retrievalResults = Some []\<rparr>
             else Inl (Exception ''timed out''))\<rparr>"

definition stale_passage :: passage where
  "stale_passage =
     \<lparr>content = ''Light reactions'', score = 1, source = ''s3://study/docs/photosynthesis.pdf'',
      documentName = ''photosynthesis.pdf''\<rparr>"

definition chat_event :: event where
  "chat_event = [(''httpMethod'', JStr ''POST''), (''body'', JStr example_body_text)]"

definition options_event :: event where
  "options_event = [(''httpMethod'', JStr ''OPTIONS''), (''path'', JStr ''/chat'')]"

definition materials_event :: event where
  "materials_event = [(''httpMethod'', JStr ''GET''), (''path'', JStr ''/materials'')]"

definition direct_event :: event where
  "direct_event = [(''message'', JStr ''What is mitosis?'')]"

definition null_body_event :: event where
  "null_body_event = [(''httpMethod'', JStr ''POST''), (''path'', JStr ''/chat''), (''body'', JNull)]"

definition no_body_event :: event where
  "no_body_event = [(''httpMethod'', JStr ''POST''), (''path'', JStr ''/chat'')]"

definition empty_message_event :: event where
  "empty_message_event = [(''httpMethod'', JStr ''POST''), (''body'', JObj [(''sessionId'', JStr ''s1'')])]"

section \<open>Strings\<close>

lemma split_nonempty: "split sep s \<noteq> []"
  by (induction s) (auto split: list.splits)

lemma split_single: "split sep s = [x] \<Longrightarrow> sep \<notin> set s"
  by (induction s arbitrary: x) (auto split: if_splits list.splits simp: split_nonempty)

lemma split_no_sep: "sep \<notin> set s \<Longrightarrow> split sep s = [s]"
  by (induction s) auto

lemma last_split: "last (split sep s) = after_last sep s"
proof (induction s)
  case Nil
  show ?case by simp
next
  case (Cons c cs)
  show ?case
  proof (cases "sep \<in> set cs")
    case True
    have "last (split sep (c # cs)) = last (split sep cs)"
      using split_nonempty[of sep cs] split_single[of sep cs] True
      by (auto split: list.splits)
    with True Cons.IH show ?thesis by simp
  next
    case False
    then show ?thesis by (simp add: split_no_sep)
  qed
qed

lemma after_last_no_sep: "sep \<notin> set (after_last sep s)"
  by (induction s) auto

lemma after_last_whole: "sep \<notin> set s \<Longrightarrow> after_last sep s = s"
  by (induction s) auto

lemma after_last_suffix: "sep \<in> set s \<Longrightarrow> \<exists>pre. s = pre @ sep # after_last sep s"
proof (induction s)
  case Nil
  then show ?case by simp
next
  case (Cons c cs)
  show ?case
  proof (cases "sep \<in> set cs")
    case True
    with Cons.IH obtain pre where "cs = pre @ sep # after_last sep cs" by blast
    then have "c # cs = (c # pre) @ sep # after_last sep (c # cs)" using True by simp
    then show ?thesis by blast
  next
    case False
    with Cons.prems have "c = sep" by simp
    then have "c # cs = [] @ sep # after_last sep (c # cs)" using False by simp
    then show ?thesis by blast
  qed
qed

lemma document_name_eq: "document_name u = Inr (after_last (CHR ''/'') u)"
proof (cases "CHR ''/'' \<in> set u")
  case True
  obtain x xs where "split (CHR ''/'') u = x # xs"
    using split_nonempty[of "CHR ''/''" u] by (cases "split (CHR ''/'') u") auto
  then show ?thesis
    using True last_split[of "CHR ''/''" u] by (simp add: document_name_def index_last_def)
next
  case False
  then show ?thesis by (simp add: document_name_def after_last_whole)
qed

section \<open>The retrieval tool\<close>

lemma results_loop_step:
  "\<exists>f. results_loop env idx (r # rs) srcs formatted =
        results_loop env (idx + 1) rs (srcs @ [passage_of r]) (formatted @ [f])"
  by (rule exI) (simp add: document_name_eq passage_of_def source_uri_of_def Let_def)

lemma results_loop_map:
  "\<exists>fs. results_loop env idx rs srcs formatted = (Inr fs, srcs @ map passage_of rs)"
proof (induction rs arbitrary: idx srcs formatted)
  case Nil
  show ?case by simp
next
  case (Cons r rs)
  obtain f where step: "results_loop env idx (r # rs) srcs formatted =
      results_loop env (idx + 1) rs (srcs @ [passage_of r]) (formatted @ [f])"
    using results_loop_step by blast
  obtain fs where "results_loop env (idx + 1) rs (srcs @ [passage_of r]) (formatted @ [f]) =
      (Inr fs, (srcs @ [passage_of r]) @ map passage_of rs)"
    using Cons.IH by blast
  with step have "results_loop env idx (r # rs) srcs formatted =
      (Inr fs, srcs @ map passage_of (r # rs))" by simp
  then show ?case by blast
qed

lemma tool_unconfigured:
  "KNOWLEDGE_BASE_ID env = [] \<Longrightarrow>
   retrieve_study_materials env query srcs =
     (''Error: Knowledge Base not configured. Please set KNOWLEDGE_BASE_ID environment variable.'', srcs)"
  by (simp add: retrieve_study_materials_def)

lemma tool_search_raises:
  "KNOWLEDGE_BASE_ID env \<noteq> [] \<Longrightarrow> retrieve env (KNOWLEDGE_BASE_ID env) query 5 = Inl e \<Longrightarrow>
   retrieve_study_materials env query srcs =
     (''Error retrieving from knowledge base: '' @ str_exn e, [])"
  by (simp add: retrieve_study_materials_def)

lemma tool_no_results:
  "KNOWLEDGE_BASE_ID env \<noteq> [] \<Longrightarrow> retrieve env (KNOWLEDGE_BASE_ID env) query 5 = Inr resp \<Longrightarrow>
   retrievalResults resp = None \<or> retrievalResults resp = Some [] \<Longrightarrow>
   retrieve_study_materials env query srcs =
     (''No relevant information found in the study materials for this query.'', [])"
  by (auto simp add: retrieve_study_materials_def)

lemma tool_results:
  assumes "KNOWLEDGE_BASE_ID env \<noteq> []"
    and "retrieve env (KNOWLEDGE_BASE_ID env) query 5 = Inr resp"
    and "retrievalResults resp = Some rs" and "rs \<noteq> []"
  shows "snd (retrieve_study_materials env query srcs) = map passage_of rs"
proof -
  obtain fs where "results_loop env 1 rs [] [] = (Inr fs, [] @ map passage_of rs)"
    using results_loop_map by blast
  with assms show ?thesis by (simp add: retrieve_study_materials_def)
qed

section \<open>Case-insensitive containment\<close>

lemma str_contains_iff: "str_contains n h \<longleftrightarrow> (\<exists>pre post. h = pre @ n @ post)"
proof (induction h)
  case Nil
  then show ?case by auto
next
  case (Cons c cs)
  show ?case
  proof
    assume "str_contains n (c # cs)"
    then consider "take (length n) (c # cs) = n" | "str_contains n cs" by auto
    then show "\<exists>pre post. c # cs = pre @ n @ post"
    proof cases
      case 1
      then have "c # cs = [] @ n @ drop (length n) (c # cs)"
        by (metis append_Nil append_take_drop_id)
      then show ?thesis by blast
    next
      case 2
      with Cons.IH obtain pre post where "cs = pre @ n @ post" by blast
      then have "c # cs = (c # pre) @ n @ post" by simp
      then show ?thesis by blast
    qed
  next
    assume "\<exists>pre post. c # cs = pre @ n @ post"
    then obtain pre post where e: "c # cs = pre @ n @ post" by blast
    show "str_contains n (c # cs)"
    proof (cases pre)
      case Nil
      with e have "take (length n) (c # cs) = n" by simp
      then show ?thesis by simp
    next
      case (Cons a pre')
      with e have "cs = pre' @ n @ post" by simp
      with Cons.IH have "str_contains n cs" by blast
      then show ?thesis by simp
    qed
  qed
qed

lemma lower_append: "lower (xs @ ys) = lower xs @ lower ys"
  by (simp add: lower_def)

lemma str_contains_lower_iff: "str_contains (lower n) (lower h) \<longleftrightarrow> contains_ci n h"
proof
  assume "str_contains (lower n) (lower h)"
  then obtain pre post where "lower h = pre @ lower n @ post"
    using str_contains_iff by blast
  then have "map char_lower h = pre @ (lower n @ post)" by (simp add: lower_def)
  then obtain h1 h2 where h: "h = h1 @ h2" and h2: "lower n @ post = map char_lower h2"
    unfolding map_eq_append_conv by blast
  from h2 obtain mid h3 where "h2 = mid @ h3" and "map char_lower mid = lower n"
    unfolding append_eq_map_conv by metis
  with h have "h = h1 @ mid @ h3 \<and> lower mid = lower n" by (simp add: lower_def)
  then show "contains_ci n h" unfolding contains_ci_def by blast
next
  assume "contains_ci n h"
  then obtain pre mid post where "h = pre @ mid @ post" and "lower mid = lower n"
    unfolding contains_ci_def by blast
  then have "lower h = lower pre @ lower n @ lower post" by (simp add: lower_append)
  then show "str_contains (lower n) (lower h)" using str_contains_iff by blast
qed

lemma lower_materials_json: "lower ''materials.json'' = ''materials.json''"
  by (simp add: lower_def char_lower_def)

lemma filter_sources_ci:
  "filter_sources srcs = filter (\<lambda>p. \<not> contains_ci ''materials.json'' (documentName p)) srcs"
  using str_contains_lower_iff[of "''materials.json''"]
  by (simp add: filter_sources_def lower_materials_json)

section \<open>Responses\<close>

lemma status_error_response: "statusCode (error_response code msg) = code"
  by (simp add: error_response_def)

lemma headers_error_response: "headers (error_response code msg) = json_headers"
  by (simp add: error_response_def)

lemma status_success_response: "statusCode (success_response out sid srcs) = 200"
  by (simp add: success_response_def Let_def)

lemma headers_success_response: "headers (success_response out sid srcs) = json_headers"
  by (simp add: success_response_def Let_def)

lemma materials_cases:
  "(\<exists>doc. get_materials_handler env =
      \<lparr>statusCode = 200, headers = json_headers, body = json_dumps doc\<rparr>)
   \<or> get_materials_handler env = error_response 404 ''Materials file not found''
   \<or> (\<exists>msg. get_materials_handler env = error_response 500 msg)"
  by (auto simp: get_materials_handler_def error_response_def split: sum.splits exn.splits)

lemma chat_cases:
  assumes "chat env ev srcs = (r, srcs')"
  shows "(\<exists>msg. r = error_response 500 msg)
         \<or> (r = error_response 400 ''Message is required'' \<and> srcs' = srcs)
         \<or> (\<exists>out sid. r = success_response out sid srcs')"
  using assms
  by (auto simp: chat_def Let_def split: sum.splits prod.splits if_splits)

lemma handler_chat:
  "routes_to_chat ev \<Longrightarrow>
   handler env ev srcs = (Inr (fst (chat env ev srcs)), snd (chat env ev srcs))"
  by (auto simp: routes_to_chat_def handler_def Let_def split: sum.splits prod.splits)

lemma handler_cases:
  assumes "handler env ev srcs = (Inr r, srcs')"
  shows "(r = get_materials_handler env \<and> srcs' = srcs \<and> get_method ev = Inr (JStr ''GET''))
         \<or> (r = options_response \<and> srcs' = srcs \<and> get_method ev = Inr (JStr ''OPTIONS''))
         \<or> (chat env ev srcs = (r, srcs') \<and> get_method ev \<noteq> Inr (JStr ''OPTIONS''))"
  using assms
  by (auto simp: handler_def Let_def split: sum.splits prod.splits if_splits)

lemma chat_validated:
  assumes "parse_request env ev = Inr (message, session_id)" and "truthy message"
  shows "chat env ev srcs =
     (case create_study_buddy_agent env session_id of
        Inl e \<Rightarrow> (error_response 500 (''Internal server error: '' @ str_exn e), [])
      | Inr agent \<Rightarrow>
          (case run_agent env (agent message) [] of
             (Inl e, srcs1) \<Rightarrow>
               (error_response 500 (''Internal server error: '' @ str_exn e), srcs1)
           | (Inr out, srcs1) \<Rightarrow> (success_response out session_id srcs1, srcs1)))"
  using assms by (simp add: chat_def Let_def)

section \<open>Where the passages of the shared list come from\<close>

lemma tool_from_search:
  assumes "\<forall>p\<in>set srcs. from_search env p"
  shows "\<forall>p\<in>set (snd (retrieve_study_materials env query srcs)). from_search env p"
proof (cases "KNOWLEDGE_BASE_ID env = []")
  case True
  with assms show ?thesis by (simp add: tool_unconfigured)
next
  case kb: False
  show ?thesis
  proof (cases "retrieve env (KNOWLEDGE_BASE_ID env) query 5")
    case (Inl e)
    with kb show ?thesis by (simp add: tool_search_raises)
  next
    case (Inr resp)
    show ?thesis
    proof (cases "retrievalResults resp = None \<or> retrievalResults resp = Some []")
      case True
      with kb Inr show ?thesis by (simp add: tool_no_results)
    next
      case False
      then obtain rs where rs: "retrievalResults resp = Some rs" "rs \<noteq> []" by auto
      with kb Inr have "snd (retrieve_study_materials env query srcs) = map passage_of rs"
        by (rule tool_results)
      with Inr rs show ?thesis unfolding from_search_def by auto
    qed
  qed
qed

lemma run_agent_from_search:
  "\<forall>p\<in>set srcs. from_search env p \<Longrightarrow>
   \<forall>p\<in>set (snd (run_agent env run srcs)). from_search env p"
proof (induction run arbitrary: srcs)
  case (Finish out)
  then show ?case by simp
next
  case (Raise e)
  then show ?case by simp
next
  case (UseTool query k)
  obtain out srcs' where t: "retrieve_study_materials env query srcs = (out, srcs')"
    by (cases "retrieve_study_materials env query srcs")
  with tool_from_search[OF UseTool.prems, of query]
  have "\<forall>p\<in>set srcs'. from_search env p" by simp
  then have "\<forall>p\<in>set (snd (run_agent env (k out) srcs')). from_search env p"
    by (rule UseTool.IH[OF rangeI])
  with t show ?case by simp
qed

section \<open>The concrete environment, evaluated\<close>

lemma example_routes: "routes_to_chat chat_event"
  by (simp add: routes_to_chat_def get_method_def get_path_def chat_event_def dict_get_def
      or_else_def)

lemma example_parse:
  "parse_request example_env chat_event = Inr (JStr ''What is mitosis?'', JStr ''default-session'')"
  by (simp add: parse_request_def parse_body_def chat_event_def example_env_def dict_get_def)

lemma example_tool:
  "snd (retrieve_study_materials example_env query srcs) = map passage_of example_results"
proof -
  have "KNOWLEDGE_BASE_ID example_env \<noteq> []" by (simp add: example_env_def)
  moreover have "retrieve example_env (KNOWLEDGE_BASE_ID example_env) query 5 =
      Inr \<lparr>retrievalResults = Some example_results\<rparr>" by (simp add: example_env_def)
  moreover have "example_results \<noteq> []" by (simp add: example_results_def)
  ultimately show ?thesis using tool_results by simp
qed

lemma example_run:
  "run_agent example_env (example_agent message) srcs =
     (Inr example_output, map passage_of example_results)"
  using example_tool[of "''mitosis phases''" srcs]
  by (cases "retrieve_study_materials example_env ''mitosis phases'' srcs")
     (simp add: example_agent_def)

lemma example_create:
  "create_study_buddy_agent example_env session_id = Inr example_agent"
  by (simp add: create_study_buddy_agent_def example_env_def)

lemma example_chat:
  "handler example_env chat_event srcs =
     (Inr (success_response example_output (JStr ''default-session'')
             (map passage_of example_results)),
      map passage_of example_results)"
  using example_parse
  by (simp add: handler_chat[OF example_routes] chat_validated example_create example_run)

lemma example_passages:
  "map passage_of example_results =
     [\<lparr>content = ''Mitosis has four phases.'', score = 3 / 4,
       source = ''s3://study/docs/mitosis.pdf'', documentName = ''mitosis.pdf''\<rparr>,
      \<lparr>content = ''topic list'', score = 0,
       source = ''s3://study/Materials.JSON'', documentName = ''Materials.JSON''\<rparr>,
      \<lparr>content = [], score = 1 / 2,
       source = ''Unknown source'', documentName = ''Unknown source''\<rparr>]"
  by (simp add: example_results_def passage_of_def source_uri_of_def)

lemma example_lower:
  "lower ''mitosis.pdf'' = ''mitosis.pdf''"
  "lower ''Materials.JSON'' = ''materials.json''"
  "lower ''Unknown source'' = ''unknown source''"
  by code_simp+

lemma example_filtered:
  "filter_sources (map passage_of example_results) =
     [\<lparr>content = ''Mitosis has four phases.'', score = 3 / 4,
       source = ''s3://study/docs/mitosis.pdf'', documentName = ''mitosis.pdf''\<rparr>,
      \<lparr>content = [], score = 1 / 2,
       source = ''Unknown source'', documentName = ''Unknown source''\<rparr>]"
  by (simp add: example_passages filter_sources_def example_lower)

section \<open>The material identifier\<close>

lemma success_body:
  "\<exists>kvs. body (success_response out sid srcs) = json_dumps (JObj kvs)
     \<and> map_of kvs ''relevantMaterialId'' =
          Some (material_json (validate_material_id (relevant_material_id out)))
     \<and> map_of kvs ''sources'' =
          (if filter_sources srcs = [] then None
           else Some (JArr (map passage_json (filter_sources srcs))))"
  by (simp add: success_response_def Let_def)

lemma validate_material_id_cases:
  "material_json (validate_material_id m) \<in>
     {JNull, JStr ''photosynthesis'', JStr ''cell_respiration'', JStr ''mitosis''}"
  by (cases m) (auto simp: validate_material_id_def valid_ids_def material_json_def)

lemma handler_chat_200:
  assumes "routes_to_chat ev" and "handler env ev srcs = (Inr r, srcs')" and "statusCode r = 200"
  shows "\<exists>out sid. r = success_response out sid srcs'"
proof -
  from assms(1,2) have "chat env ev srcs = (r, srcs')"
    by (simp add: handler_chat prod_eq_iff)
  from chat_cases[OF this] assms(3) show ?thesis
    by (auto simp: status_error_response)
qed

text \<open>
  C1. \<open>validate_material_id\<close> returns its argument when it is one of photosynthesis,
  cell_respiration and mitosis, and \<open>None\<close> for \<open>None\<close> and for every other value; it is
  a total function, so it never raises. In every status-200 response of the chat flow the
  \<open>relevantMaterialId\<close> field is null or one of the three identifiers.
\<close>

theorem relevant_material_id_enumerated:
  "validate_material_id m =
     (if m \<in> {Some ''photosynthesis'', Some ''cell_respiration'', Some ''mitosis''}
      then m else None)
   \<and> (routes_to_chat ev \<and> handler env ev srcs = (Inr r, srcs') \<and> statusCode r = 200 \<longrightarrow>
        (\<exists>kvs. body r = json_dumps (JObj kvs)
           \<and> map_of kvs ''relevantMaterialId'' \<in>
               {Some JNull, Some (JStr ''photosynthesis''), Some (JStr ''cell_respiration''),
                Some (JStr ''mitosis'')}))"
proof
  show "validate_material_id m =
     (if m \<in> {Some ''photosynthesis'', Some ''cell_respiration'', Some ''mitosis''}
      then m else None)"
    by (cases m) (auto simp: validate_material_id_def valid_ids_def)
next
  show "routes_to_chat ev \<and> handler env ev srcs = (Inr r, srcs') \<and> statusCode r = 200 \<longrightarrow>
        (\<exists>kvs. body r = json_dumps (JObj kvs)
           \<and> map_of kvs ''relevantMaterialId'' \<in>
               {Some JNull, Some (JStr ''photosynthesis''), Some (JStr ''cell_respiration''),
                Some (JStr ''mitosis'')})"
  proof
    assume a: "routes_to_chat ev \<and> handler env ev srcs = (Inr r, srcs') \<and> statusCode r = 200"
    then obtain out sid where r: "r = success_response out sid srcs'"
      using handler_chat_200 by blast
    obtain kvs where "body r = json_dumps (JObj kvs)"
      and "map_of kvs ''relevantMaterialId'' =
             Some (material_json (validate_material_id (relevant_material_id out)))"
      using success_body[of out sid srcs'] r by blast
    then show "\<exists>kvs. body r = json_dumps (JObj kvs)
           \<and> map_of kvs ''relevantMaterialId'' \<in>
               {Some JNull, Some (JStr ''photosynthesis''), Some (JStr ''cell_respiration''),
                Some (JStr ''mitosis'')}"
      using validate_material_id_cases[of "relevant_material_id out"] by auto
  qed
qed

theorem relevant_material_id_enumerated_witness:
  "routes_to_chat chat_event
   \<and> handler example_env chat_event [stale_passage] =
       (Inr (success_response example_output (JStr ''default-session'')
               (map passage_of example_results)),
        map passage_of example_results)
   \<and> statusCode (success_response example_output (JStr ''default-session'')
                   (map passage_of example_results)) = 200
   \<and> validate_material_id (Some ''meiosis'') = None
   \<and> validate_material_id (Some ''mitosis'') = Some ''mitosis''
   \<and> validate_material_id None = None
   \<and> (\<exists>kvs. body (success_response example_output (JStr ''default-session'')
                     (map passage_of example_results)) = json_dumps (JObj kvs)
          \<and> map_of kvs ''relevantMaterialId'' \<in>
              {Some JNull, Some (JStr ''photosynthesis''), Some (JStr ''cell_respiration''),
               Some (JStr ''mitosis'')})"
proof -
  let ?r = "success_response example_output (JStr ''default-session'')
              (map passage_of example_results)"
  have h: "routes_to_chat chat_event
      \<and> handler example_env chat_event [stale_passage] = (Inr ?r, map passage_of example_results)
      \<and> statusCode ?r = 200"
    by (simp add: example_routes example_chat status_success_response)
  have v1: "validate_material_id (Some ''meiosis'') = None"
    using relevant_material_id_enumerated[of "Some ''meiosis''"] by simp
  have v2: "validate_material_id (Some ''mitosis'') = Some ''mitosis''"
    using relevant_material_id_enumerated[of "Some ''mitosis''"] by simp
  have v3: "validate_material_id None = None"
    using relevant_material_id_enumerated[of None] by simp
  have "\<exists>kvs. body ?r = json_dumps (JObj kvs)
          \<and> map_of kvs ''relevantMaterialId'' \<in>
              {Some JNull, Some (JStr ''photosynthesis''), Some (JStr ''cell_respiration''),
               Some (JStr ''mitosis'')}"
    using relevant_material_id_enumerated[of None chat_event example_env "[stale_passage]" ?r
        "map passage_of example_results"] h by blast
  with h v1 v2 v3 show ?thesis by blast
qed

section \<open>The shared list across invocations\<close>

text \<open>
  C2. When a chat invocation passes message validation, the handler sets the shared list
  to empty once, and only then constructs and runs the agent: the agent runs from the
  empty list, the outcome (response and list afterwards) is the same whatever list the
  previous invocation left, and every passage in the list afterwards was built from a
  search made by this environment's retrieval tool.
\<close>

theorem shared_list_reset_before_agent:
  assumes "routes_to_chat ev"
    and "parse_request env ev = Inr (message, session_id)"
    and "truthy message"
  shows "handler env ev srcs =
           (case create_study_buddy_agent env session_id of
              Inl e \<Rightarrow>
                (Inr (error_response 500 (''Internal server error: '' @ str_exn e)), [])
            | Inr agent \<Rightarrow>
                (case run_agent env (agent message) [] of
                   (Inl e, srcs1) \<Rightarrow>
                     (Inr (error_response 500 (''Internal server error: '' @ str_exn e)), srcs1)
                 | (Inr out, srcs1) \<Rightarrow>
                     (Inr (success_response out session_id srcs1), srcs1)))
         \<and> handler env ev srcs = handler env ev []
         \<and> (\<forall>p\<in>set (snd (handler env ev srcs)). from_search env p)"
proof -
  have eq: "handler env ev s =
           (case create_study_buddy_agent env session_id of
              Inl e \<Rightarrow>
                (Inr (error_response 500 (''Internal server error: '' @ str_exn e)), [])
            | Inr agent \<Rightarrow>
                (case run_agent env (agent message) [] of
                   (Inl e, srcs1) \<Rightarrow>
                     (Inr (error_response 500 (''Internal server error: '' @ str_exn e)), srcs1)
                 | (Inr out, srcs1) \<Rightarrow>
                     (Inr (success_response out session_id srcs1), srcs1)))" for s
    using assms
    by (simp add: handler_chat chat_validated split: sum.splits prod.splits)
  have prov: "\<forall>p\<in>set (snd (handler env ev srcs)). from_search env p"
  proof (cases "create_study_buddy_agent env session_id")
    case (Inl e)
    then show ?thesis by (simp add: eq)
  next
    case (Inr agent)
    have "\<forall>p\<in>set (snd (run_agent env (agent message) [])). from_search env p"
      by (rule run_agent_from_search) simp
    with Inr show ?thesis
      by (auto simp: eq split: sum.splits prod.splits)
  qed
  from eq[of srcs] eq[of "[]"] prov show ?thesis by simp
qed

theorem shared_list_reset_before_agent_witness:
  "routes_to_chat chat_event
   \<and> parse_request example_env chat_event =
       Inr (JStr ''What is mitosis?'', JStr ''default-session'')
   \<and> truthy (JStr ''What is mitosis?'')
   \<and> handler example_env chat_event [stale_passage] = handler example_env chat_event []
   \<and> snd (handler example_env chat_event [stale_passage]) = map passage_of example_results"
proof -
  have t: "truthy (JStr ''What is mitosis?'')" by simp
  from shared_list_reset_before_agent[OF example_routes example_parse t, of "[stale_passage]"]
  have "handler example_env chat_event [stale_passage] = handler example_env chat_event []"
    by blast
  with example_routes example_parse t example_chat[of "[stale_passage]"]
  show ?thesis by simp
qed

section \<open>The shared list in a process without a knowledge base\<close>

lemma run_agent_unconfigured:
  "KNOWLEDGE_BASE_ID env = [] \<Longrightarrow> snd (run_agent env run srcs) = srcs"
proof (induction run arbitrary: srcs)
  case (Finish out)
  show ?case by simp
next
  case (Raise e)
  show ?case by simp
next
  case (UseTool query k)
  have "snd (run_agent env (k out) srcs) = srcs" for out
    using UseTool.prems by (rule UseTool.IH[OF rangeI])
  with UseTool.prems show ?case by (simp add: tool_unconfigured)
qed

lemma chat_unconfigured:
  assumes "KNOWLEDGE_BASE_ID env = []"
  shows "snd (chat env ev []) = []"
proof (cases "parse_request env ev")
  case (Inl e)
  then show ?thesis by (simp add: chat_def)
next
  case (Inr req)
  obtain message session_id where req: "req = (message, session_id)" by (cases req)
  show ?thesis
  proof (cases "truthy message")
    case False
    with Inr req show ?thesis by (simp add: chat_def)
  next
    case True
    show ?thesis
    proof (cases "create_study_buddy_agent env session_id")
      case (Inl e)
      with Inr req True show ?thesis by (simp add: chat_validated)
    next
      case agent: (Inr agent)
      obtain res srcs1 where run: "run_agent env (agent message) [] = (res, srcs1)"
        by (cases "run_agent env (agent message) []")
      with run_agent_unconfigured[OF assms, of "agent message" "[]"] have "srcs1 = []" by simp
      with Inr req True agent run show ?thesis
        by (simp add: chat_validated split: sum.splits)
    qed
  qed
qed

lemma handler_unconfigured:
  assumes "KNOWLEDGE_BASE_ID env = []"
  shows "snd (handler env ev []) = []"
  using chat_unconfigured[OF assms, of ev]
  by (auto simp: handler_def Let_def split: sum.splits prod.splits)

lemma reachable_unconfigured:
  assumes "KNOWLEDGE_BASE_ID env = []" and "reachable env srcs"
  shows "srcs = []"
  using assms(2)
proof (induction rule: reachable.induct)
  case loaded
  show ?case by simp
next
  case (invoked srcs ev)
  then show ?case by (simp add: handler_unconfigured[OF assms(1)])
next
  case (tool_called srcs query)
  then show ?case by (simp add: tool_unconfigured[OF assms(1)])
qed

lemma flaky_reachable: "reachable flaky_env (map passage_of example_results)"
proof -
  have "KNOWLEDGE_BASE_ID flaky_env \<noteq> []" by (simp add: flaky_env_def example_env_def)
  moreover have "retrieve flaky_env (KNOWLEDGE_BASE_ID flaky_env) ''mitosis phases'' 5 =
      Inr \<lparr>retrievalResults = Some example_results\<rparr>" by (simp add: flaky_env_def)
  moreover have "example_results \<noteq> []" by (simp add: example_results_def)
  ultimately have "snd (retrieve_study_materials flaky_env ''mitosis phases'' []) =
      map passage_of example_results" using tool_results by simp
  with reachable.tool_called[OF reachable.loaded, of flaky_env "''mitosis phases''"]
  show ?thesis by simp
qed

text \<open>
  C3. On every value the shared list can take in a process, a failing invocation of the
  retrieval tool returns a text and leaves the shared list empty. The tool is a total
  function, so it never raises. With the identifier unconfigured it returns the
  configuration error text; this branch returns before any assignment, and the list is
  empty because nothing is ever stored in a process without an identifier. When the search
  call raises, the tool returns the error text with the exception's message and assigns
  the empty list; when the search gives no result, it returns the no-information text and
  assigns the empty list.
\<close>

theorem retrieval_failures_fail_soft:
  assumes "reachable env srcs"
  shows "(KNOWLEDGE_BASE_ID env = [] \<longrightarrow>
      retrieve_study_materials env query srcs =
        (''Error: Knowledge Base not configured. Please set KNOWLEDGE_BASE_ID environment variable.'',
         []))
   \<and> (KNOWLEDGE_BASE_ID env \<noteq> [] \<and> retrieve env (KNOWLEDGE_BASE_ID env) query 5 = Inl e \<longrightarrow>
      retrieve_study_materials env query srcs =
        (''Error retrieving from knowledge base: '' @ str_exn e, []))
   \<and> (KNOWLEDGE_BASE_ID env \<noteq> [] \<and> retrieve env (KNOWLEDGE_BASE_ID env) query 5 = Inr resp
        \<and> (retrievalResults resp = None \<or> retrievalResults resp = Some []) \<longrightarrow>
      retrieve_study_materials env query srcs =
        (''No relevant information found in the study materials for this query.'', []))"
proof -
  have "KNOWLEDGE_BASE_ID env = [] \<longrightarrow>
      retrieve_study_materials env query srcs =
        (''Error: Knowledge Base not configured. Please set KNOWLEDGE_BASE_ID environment variable.'',
         [])"
    using reachable_unconfigured[OF _ assms] tool_unconfigured[of env query srcs] by auto
  then show ?thesis
    using tool_search_raises[of env query e srcs] tool_no_results[of env query resp srcs]
    by blast
qed

theorem retrieval_failures_fail_soft_witness:
  "reachable flaky_env (map passage_of example_results)
   \<and> map passage_of example_results \<noteq> []
   \<and> retrieve_study_materials flaky_env ''cell walls'' (map passage_of example_results) =
       (''Error retrieving from knowledge base: timed out'', [])
   \<and> retrieve_study_materials flaky_env ''quantum gravity'' (map passage_of example_results) =
       (''No relevant information found in the study materials for this query.'', [])
   \<and> reachable (example_env\<lparr>KNOWLEDGE_BASE_ID := []\<rparr>)
        (snd (handler (example_env\<lparr>KNOWLEDGE_BASE_ID := []\<rparr>) chat_event []))
   \<and> retrieve_study_materials (example_env\<lparr>KNOWLEDGE_BASE_ID := []\<rparr>) ''mitosis phases''
        (snd (handler (example_env\<lparr>KNOWLEDGE_BASE_ID := []\<rparr>) chat_event [])) =
       (''Error: Knowledge Base not configured. Please set KNOWLEDGE_BASE_ID environment variable.'',
        [])"
proof -
  let ?e1 = "example_env\<lparr>KNOWLEDGE_BASE_ID := []\<rparr>"
  let ?s1 = "snd (handler ?e1 chat_event [])"
  let ?s = "map passage_of example_results"
  have ne: "?s \<noteq> []" by (simp add: example_results_def)
  have r1: "reachable ?e1 ?s1" by (rule reachable.invoked[OF reachable.loaded])
  have h1: "KNOWLEDGE_BASE_ID ?e1 = []" by simp
  have h2: "KNOWLEDGE_BASE_ID flaky_env \<noteq> []
      \<and> retrieve flaky_env (KNOWLEDGE_BASE_ID flaky_env) ''cell walls'' 5 =
          Inl (Exception ''timed out'')"
    by (simp add: flaky_env_def example_env_def)
  have h3: "KNOWLEDGE_BASE_ID flaky_env \<noteq> []
      \<and> retrieve flaky_env (KNOWLEDGE_BASE_ID flaky_env) ''quantum gravity'' 5 =
          Inr \<lparr>retrievalResults = Some []\<rparr>
      \<and> (retrievalResults \<lparr>retrievalResults = Some []\<rparr> = None
          \<or> retrievalResults \<lparr>retrievalResults = Some []\<rparr> = Some [])"
    by (simp add: flaky_env_def example_env_def)
  have c1: "retrieve_study_materials ?e1 ''mitosis phases'' ?s1 =
     (''Error: Knowledge Base not configured. Please set KNOWLEDGE_BASE_ID environment variable.'',
      [])"
    using retrieval_failures_fail_soft[OF r1, of "''mitosis phases''"] h1 by blast
  have c2: "retrieve_study_materials flaky_env ''cell walls'' ?s =
     (''Error retrieving from knowledge base: '' @ str_exn (Exception ''timed out''), [])"
    using retrieval_failures_fail_soft[OF flaky_reachable, of "''cell walls''"
        "Exception ''timed out''"] h2 by blast
  have c3: "retrieve_study_materials flaky_env ''quantum gravity'' ?s =
     (''No relevant information found in the study materials for this query.'', [])"
    using retrieval_failures_fail_soft[OF flaky_reachable, of "''quantum gravity''" _
        "\<lparr>retrievalResults = Some []\<rparr>"] h3 by blast
  from flaky_reachable ne r1 c1 c2 c3 show ?thesis by simp
qed

section \<open>Recorded passages and the sources of a response\<close>

text \<open>
  C9. When the knowledge base is configured and the search returns \<open>k \<ge> 1\<close> results, the
  shared list afterwards holds exactly the \<open>k\<close> passages of the results, in rank order,
  whatever it held before. A passage's score is 0 when its result has none and the result's
  score otherwise; its source is the result's URI; its document name is what follows the
  last \<open>/\<close> of the source, and the whole source when it has no \<open>/\<close>.
\<close>

theorem retrieval_records_passages:
  assumes "KNOWLEDGE_BASE_ID env \<noteq> []"
    and "retrieve env (KNOWLEDGE_BASE_ID env) query 5 = Inr resp"
    and "retrievalResults resp = Some rs"
    and "rs \<noteq> []"
  shows "snd (retrieve_study_materials env query srcs) = map passage_of rs
     \<and> length (snd (retrieve_study_materials env query srcs)) = length rs
     \<and> (\<forall>r. score (passage_of r) = (case result_score r of None \<Rightarrow> 0 | Some x \<Rightarrow> x)
           \<and> source (passage_of r) = source_uri_of r
           \<and> (if CHR ''/'' \<in> set (source (passage_of r))
               then (\<exists>pre. source (passage_of r) = pre @ CHR ''/'' # documentName (passage_of r))
                    \<and> CHR ''/'' \<notin> set (documentName (passage_of r))
               else documentName (passage_of r) = source (passage_of r)))"
proof -
  have rec: "snd (retrieve_study_materials env query srcs) = map passage_of rs"
    using assms by (rule tool_results)
  have each: "score (passage_of r) = (case result_score r of None \<Rightarrow> 0 | Some x \<Rightarrow> x)
           \<and> source (passage_of r) = source_uri_of r
           \<and> (if CHR ''/'' \<in> set (source (passage_of r))
               then (\<exists>pre. source (passage_of r) = pre @ CHR ''/'' # documentName (passage_of r))
                    \<and> CHR ''/'' \<notin> set (documentName (passage_of r))
               else documentName (passage_of r) = source (passage_of r))" for r
    using after_last_suffix[of "CHR ''/''" "source_uri_of r"]
      after_last_no_sep[of "CHR ''/''" "source_uri_of r"]
      after_last_whole[of "CHR ''/''" "source_uri_of r"]
    by (simp add: passage_of_def)
  have len: "length (snd (retrieve_study_materials env query srcs)) = length rs"
    using rec by simp
  from rec len each show ?thesis by blast
qed

theorem retrieval_records_passages_witness:
  "KNOWLEDGE_BASE_ID example_env \<noteq> []
   \<and> retrieve example_env (KNOWLEDGE_BASE_ID example_env) ''mitosis'' 5 =
       Inr \<lparr>retrievalResults = Some example_results\<rparr>
   \<and> example_results \<noteq> []
   \<and> snd (retrieve_study_materials example_env ''mitosis'' [stale_passage]) =
       [\<lparr>content = ''Mitosis has four phases.'', score = 3 / 4,
         source = ''s3://study/docs/mitosis.pdf'', documentName = ''mitosis.pdf''\<rparr>,
        \<lparr>content = ''topic list'', score = 0,
         source = ''s3://study/Materials.JSON'', documentName = ''Materials.JSON''\<rparr>,
        \<lparr>content = [], score = 1 / 2,
         source = ''Unknown source'', documentName = ''Unknown source''\<rparr>]"
proof -
  have h1: "KNOWLEDGE_BASE_ID example_env \<noteq> []" by (simp add: example_env_def)
  have h2: "retrieve example_env (KNOWLEDGE_BASE_ID example_env) ''mitosis'' 5 =
       Inr \<lparr>retrievalResults = Some example_results\<rparr>" by (simp add: example_env_def)
  have h3: "retrievalResults \<lparr>retrievalResults = Some example_results\<rparr> = Some example_results"
    by simp
  have h4: "example_results \<noteq> []" by (simp add: example_results_def)
  from retrieval_records_passages[OF h1 h2 h3 h4, of "[stale_passage]"]
  have "snd (retrieve_study_materials example_env ''mitosis'' [stale_passage]) =
      map passage_of example_results" by blast
  with h1 h2 h4 show ?thesis by (simp add: example_passages)
qed

text \<open>
  C4. In a status-200 response of the chat flow, the sources are the passages of the shared
  list whose document name does not contain \<open>materials.json\<close> as a case-insensitive
  substring, in the list's order; the body has the \<open>sources\<close> key exactly when that
  filtered list is not empty.
\<close>

theorem sources_filtered:
  assumes "routes_to_chat ev"
    and "handler env ev srcs = (Inr r, srcs')"
    and "statusCode r = 200"
  shows "\<exists>kvs. body r = json_dumps (JObj kvs)
     \<and> map_of kvs ''sources'' =
         (if filter (\<lambda>p. \<not> contains_ci ''materials.json'' (documentName p)) srcs' = []
          then None
          else Some (JArr (map passage_json
                 (filter (\<lambda>p. \<not> contains_ci ''materials.json'' (documentName p)) srcs'))))"
proof -
  obtain out sid where r: "r = success_response out sid srcs'"
    using handler_chat_200[OF assms] by blast
  show ?thesis
    using success_body[of out sid srcs'] r by (auto simp: filter_sources_ci)
qed

theorem sources_filtered_witness:
  "routes_to_chat chat_event
   \<and> handler example_env chat_event [stale_passage] =
       (Inr (success_response example_output (JStr ''default-session'')
               (map passage_of example_results)),
        map passage_of example_results)
   \<and> statusCode (success_response example_output (JStr ''default-session'')
                   (map passage_of example_results)) = 200
   \<and> (\<exists>kvs. body (success_response example_output (JStr ''default-session'')
                     (map passage_of example_results)) = json_dumps (JObj kvs)
          \<and> map_of kvs ''sources'' =
              Some (JArr (map passage_json
                [\<lparr>content = ''Mitosis has four phases.'', score = 3 / 4,
                  source = ''s3://study/docs/mitosis.pdf'', documentName = ''mitosis.pdf''\<rparr>,
                 \<lparr>content = [], score = 1 / 2,
                  source = ''Unknown source'', documentName = ''Unknown source''\<rparr>])))"
proof -
  let ?r = "success_response example_output (JStr ''default-session'')
              (map passage_of example_results)"
  have h2: "handler example_env chat_event [stale_passage] =
      (Inr ?r, map passage_of example_results)" by (rule example_chat)
  have h3: "statusCode ?r = 200" by (rule status_success_response)
  have f: "filter (\<lambda>p. \<not> contains_ci ''materials.json'' (documentName p))
             (map passage_of example_results) =
           [\<lparr>content = ''Mitosis has four phases.'', score = 3 / 4,
             source = ''s3://study/docs/mitosis.pdf'', documentName = ''mitosis.pdf''\<rparr>,
            \<lparr>content = [], score = 1 / 2,
             source = ''Unknown source'', documentName = ''Unknown source''\<rparr>]"
    using example_filtered by (simp add: filter_sources_ci)
  from sources_filtered[OF example_routes h2 h3] f example_routes h2 h3
  show ?thesis by simp
qed

section \<open>Parsing the request body\<close>

lemma example_direct_routes: "routes_to_chat direct_event"
  by (simp add: routes_to_chat_def get_method_def get_path_def direct_event_def dict_get_def
      or_else_def)

lemma example_direct_parse:
  "parse_request example_env direct_event =
     Inr (JStr ''What is mitosis?'', JStr ''default-session'')"
  by (simp add: parse_request_def parse_body_def direct_event_def dict_get_def)

lemma example_direct_chat:
  "handler example_env direct_event srcs =
     (Inr (success_response example_output (JStr ''default-session'')
             (map passage_of example_results)),
      map passage_of example_results)"
  using example_direct_parse
  by (simp add: handler_chat[OF example_direct_routes] chat_validated example_create example_run)

text \<open>
  C5 (counterexample). An event without a \<open>body\<close> key and with a top-level \<open>message\<close> is
  not treated as an empty mapping: the event itself is the request mapping, the message
  is read from it, and the request is answered with status 200.
\<close>

theorem body_absent_counterexample:
  "map_of direct_event ''body'' = None
   \<and> parse_body example_env direct_event = Inr (JObj direct_event)
   \<and> parse_body example_env direct_event \<noteq> Inr (JObj [])
   \<and> parse_request example_env direct_event =
       Inr (JStr ''What is mitosis?'', JStr ''default-session'')
   \<and> fst (handler example_env direct_event []) =
       Inr (success_response example_output (JStr ''default-session'')
              (map passage_of example_results))
   \<and> statusCode (success_response example_output (JStr ''default-session'')
                   (map passage_of example_results)) = 200"
  by (simp add: example_direct_chat example_direct_parse status_success_response)
     (simp add: parse_body_def direct_event_def dict_get_def)

text \<open>
  C5 (amended). A body that is a text string is decoded as JSON. When the event has no
  \<open>body\<close> key, the event mapping itself is the request mapping, so message and session id
  are read from the event's top-level keys. Whenever the request mapping has no
  \<open>sessionId\<close> key, the session id is \<open>default-session\<close>.
\<close>

theorem body_parsing:
  "(map_of ev ''body'' = Some (JStr txt) \<longrightarrow> parse_body env ev = json_loads env txt)
   \<and> (map_of ev ''body'' = None \<longrightarrow>
        parse_body env ev = Inr (JObj ev)
        \<and> parse_request env ev =
            Inr (dict_get ev ''message'' (JStr []),
                 dict_get ev ''sessionId'' (JStr ''default-session'')))
   \<and> (parse_body env ev = Inr (JObj b) \<and> map_of b ''sessionId'' = None \<longrightarrow>
        parse_request env ev =
          Inr (dict_get b ''message'' (JStr []), JStr ''default-session''))"
  by (simp add: parse_body_def parse_request_def dict_get_def)

theorem body_parsing_witness:
  "map_of chat_event ''body'' = Some (JStr example_body_text)
   \<and> parse_body example_env chat_event = Inr (JObj [(''message'', JStr ''What is mitosis?'')])
   \<and> map_of direct_event ''body'' = None
   \<and> parse_request example_env direct_event =
       Inr (JStr ''What is mitosis?'', JStr ''default-session'')
   \<and> map_of [(''message'', JStr ''What is mitosis?'')] ''sessionId'' = None
   \<and> parse_request example_env chat_event =
       Inr (JStr ''What is mitosis?'', JStr ''default-session'')"
proof -
  have h1: "map_of chat_event ''body'' = Some (JStr example_body_text)"
    by (simp add: chat_event_def)
  have h2: "map_of direct_event ''body'' = None" by (simp add: direct_event_def)
  have h3: "map_of [(''message'', JStr ''What is mitosis?'')] ''sessionId'' = None" by simp
  have c1: "parse_body example_env chat_event = json_loads example_env example_body_text"
    using body_parsing[of chat_event example_body_text example_env] h1 by blast
  then have c1': "parse_body example_env chat_event =
      Inr (JObj [(''message'', JStr ''What is mitosis?'')])"
    by (simp add: example_env_def)
  have c2: "parse_request example_env direct_event =
      Inr (dict_get direct_event ''message'' (JStr []),
           dict_get direct_event ''sessionId'' (JStr ''default-session''))"
    using body_parsing[of direct_event _ example_env] h2 by blast
  then have c2': "parse_request example_env direct_event =
      Inr (JStr ''What is mitosis?'', JStr ''default-session'')"
    by (simp add: direct_event_def dict_get_def)
  have c3: "parse_request example_env chat_event =
      Inr (dict_get [(''message'', JStr ''What is mitosis?'')] ''message'' (JStr []),
           JStr ''default-session'')"
    using body_parsing[of chat_event _ example_env "[(''message'', JStr ''What is mitosis?'')]"]
      c1' h3 by blast
  then have c3': "parse_request example_env chat_event =
      Inr (JStr ''What is mitosis?'', JStr ''default-session'')"
    by (simp add: dict_get_def)
  from h1 h2 h3 c1' c2' c3' show ?thesis by blast
qed

section \<open>Message validation\<close>

lemma routes_to_chat_method:
  "routes_to_chat ev \<Longrightarrow> get_method ev \<noteq> Inr (JStr ''OPTIONS'')"
  by (auto simp: routes_to_chat_def split: sum.splits)

lemma example_empty_routes: "routes_to_chat empty_message_event"
  by (simp add: routes_to_chat_def get_method_def get_path_def empty_message_event_def
      dict_get_def or_else_def)

lemma example_empty_body:
  "parse_body env empty_message_event = Inr (JObj [(''sessionId'', JStr ''s1'')])"
  by (simp add: parse_body_def empty_message_event_def dict_get_def)

lemma example_null_routes: "routes_to_chat null_body_event"
  by (simp add: routes_to_chat_def get_method_def get_path_def null_body_event_def
      dict_get_def or_else_def)

lemma example_no_body_routes: "routes_to_chat no_body_event"
  by (simp add: routes_to_chat_def get_method_def get_path_def no_body_event_def
      dict_get_def or_else_def)

text \<open>
  C6. A request whose message is empty or absent is to be answered with status 400, and the
  code does so when the body is a mapping or a text that decodes to one, and when the
  event has no \<open>body\<close> key at all. It misses the event whose \<open>body\<close> key is present with the
  value null, which is what a POST without a body looks like in the \<open>httpMethod\<close>/\<open>path\<close>
  event format: the request mapping is then \<open>None\<close>, reading the message raises
  \<open>AttributeError\<close> inside the \<open>try\<close>, and the handler answers 500. The same event without
  the \<open>body\<close> key is answered 400.
\<close>

theorem null_body_answers_500:
  "routes_to_chat null_body_event
   \<and> parse_body example_env null_body_event = Inr JNull
   \<and> handler example_env null_body_event [] =
       (Inr (error_response 500
               (''Internal server error: '' @ quote @ ''NoneType'' @ quote
                @ '' object has no attribute '' @ quote @ ''get'' @ quote)),
        [])
   \<and> statusCode (error_response 500
               (''Internal server error: '' @ quote @ ''NoneType'' @ quote
                @ '' object has no attribute '' @ quote @ ''get'' @ quote)) = 500
   \<and> routes_to_chat no_body_event
   \<and> handler example_env no_body_event [] =
       (Inr (error_response 400 ''Message is required''), [])"
proof -
  have p: "parse_body example_env null_body_event = Inr JNull"
    by (simp add: parse_body_def null_body_event_def dict_get_def)
  have c: "chat example_env null_body_event [] =
      (error_response 500
         (''Internal server error: '' @ quote @ ''NoneType'' @ quote
          @ '' object has no attribute '' @ quote @ ''get'' @ quote), [])"
    by (simp add: chat_def parse_request_def p)
  have p2: "parse_body example_env no_body_event = Inr (JObj no_body_event)"
    by (simp add: parse_body_def no_body_event_def dict_get_def)
  have c2: "chat example_env no_body_event [] = (error_response 400 ''Message is required'', [])"
    by (simp add: chat_def parse_request_def p2) (simp add: no_body_event_def dict_get_def)
  from p c c2 example_null_routes example_no_body_routes show ?thesis
    by (simp add: handler_chat status_error_response)
qed

text \<open>
  For a body that parses to a mapping: when its message is empty or absent (falsy), the
  handler returns status 400 with the body \<open>{"error": "Message is required"}\<close> and
  leaves the shared list alone. The result is the same for every agent constructor and
  every search function, also ones that always raise: neither the agent nor the tool is
  reached.
\<close>

lemma empty_message_rejected:
  assumes "routes_to_chat ev"
    and "parse_body env ev = Inr (JObj b)"
    and "\<not> truthy (dict_get b ''message'' (JStr []))"
  shows "handler (env\<lparr>Agent := A, retrieve := R\<rparr>) ev srcs =
           (Inr \<lparr>statusCode = 400, headers = json_headers,
                 body = json_dumps (JObj [(''error'', JStr ''Message is required'')])\<rparr>,
            srcs)"
proof -
  have "parse_body (env\<lparr>Agent := A, retrieve := R\<rparr>) ev = parse_body env ev"
    by (simp add: parse_body_def split: json.splits)
  with assms(2) have "parse_body (env\<lparr>Agent := A, retrieve := R\<rparr>) ev = Inr (JObj b)"
    by simp
  then have "chat (env\<lparr>Agent := A, retrieve := R\<rparr>) ev srcs =
      (error_response 400 ''Message is required'', srcs)"
    using assms(3) by (simp add: chat_def parse_request_def)
  then show ?thesis
    using handler_chat[OF assms(1)] by (simp add: error_response_def)
qed

lemma empty_message_rejected_example:
  "routes_to_chat empty_message_event
   \<and> parse_body example_env empty_message_event = Inr (JObj [(''sessionId'', JStr ''s1'')])
   \<and> \<not> truthy (dict_get [(''sessionId'', JStr ''s1'')] ''message'' (JStr []))
   \<and> handler (example_env\<lparr>Agent := (\<lambda>cfg. Inl (Exception ''no agent'')),
                           retrieve := (\<lambda>kb query n. Inl (Exception ''no search''))\<rparr>)
       empty_message_event [stale_passage] =
       (Inr \<lparr>statusCode = 400, headers = json_headers,
             body = json_dumps (JObj [(''error'', JStr ''Message is required'')])\<rparr>,
        [stale_passage])"
proof -
  have h3: "\<not> truthy (dict_get [(''sessionId'', JStr ''s1'')] ''message'' (JStr []))"
    by (simp add: dict_get_def)
  from empty_message_rejected[OF example_empty_routes example_empty_body h3]
    example_empty_routes example_empty_body h3
  show ?thesis by blast
qed

text \<open>
  C10. A status-400 response is the message-validation failure, and the handler returns
  it before it assigns to the shared list: the list afterwards is the list before.
\<close>

theorem rejected_request_keeps_sources:
  assumes "handler env ev srcs = (Inr r, srcs')"
    and "statusCode r = 400"
  shows "srcs' = srcs \<and> r = error_response 400 ''Message is required''"
proof -
  from handler_cases[OF assms(1)]
  consider "r = get_materials_handler env" | "r = options_response"
    | "chat env ev srcs = (r, srcs')" by blast
  then show ?thesis
  proof cases
    case 1
    with materials_cases[of env] assms(2) show ?thesis
      by (auto simp: status_error_response)
  next
    case 2
    with assms(2) show ?thesis by (simp add: options_response_def)
  next
    case 3
    from chat_cases[OF 3] assms(2) show ?thesis
      by (auto simp: status_error_response status_success_response)
  qed
qed

theorem rejected_request_keeps_sources_witness:
  "handler example_env empty_message_event [stale_passage] =
     (Inr (error_response 400 ''Message is required''), [stale_passage])
   \<and> statusCode (error_response 400 ''Message is required'') = 400
   \<and> [stale_passage] = [stale_passage]
   \<and> snd (handler example_env empty_message_event [stale_passage]) = [stale_passage]"
proof -
  have c: "chat example_env empty_message_event [stale_passage] =
      (error_response 400 ''Message is required'', [stale_passage])"
    by (simp add: chat_def parse_request_def example_empty_body dict_get_def)
  have h1: "handler example_env empty_message_event [stale_passage] =
     (Inr (error_response 400 ''Message is required''), [stale_passage])"
    using handler_chat[OF example_empty_routes, of example_env "[stale_passage]"] c by simp
  have h2: "statusCode (error_response 400 ''Message is required'') = 400"
    by (rule status_error_response)
  from rejected_request_keeps_sources[OF h1 h2] h1 h2 show ?thesis by simp
qed

section \<open>The materials endpoint and the response headers\<close>

lemma example_materials_path: "get_path materials_event = JStr ''/materials''"
  by (simp add: get_path_def materials_event_def dict_get_def or_else_def)

lemma example_materials_method: "get_method materials_event = Inr (JStr ''GET'')"
  by (simp add: get_method_def materials_event_def dict_get_def or_else_def)

lemma example_options_method: "get_method options_event = Inr (JStr ''OPTIONS'')"
  by (simp add: get_method_def options_event_def dict_get_def or_else_def)

lemma example_options_path: "get_path options_event = JStr ''/chat''"
  by (simp add: get_path_def options_event_def dict_get_def or_else_def)

lemma example_options: "handler example_env options_event srcs = (Inr options_response, srcs)"
  by (simp add: handler_def example_options_method example_options_path)

text \<open>
  C7. A GET request whose path contains \<open>/materials\<close> is answered by the materials
  handler and leaves the shared list alone. When the bundled catalog is read and decoded,
  the response is status 200 with the catalog document as its JSON body; when the file is
  absent it is status 404 with an error body; any other failure of reading or decoding
  gives status 500 with an error body.
\<close>

theorem materials_endpoint:
  assumes "get_path ev = JStr path"
    and "str_contains ''/materials'' path"
    and "get_method ev = Inr (JStr ''GET'')"
  shows "handler env ev srcs = (Inr (get_materials_handler env), srcs)
     \<and> (open_materials env = Inr txt \<and> json_loads env txt = Inr doc \<longrightarrow>
          get_materials_handler env =
            \<lparr>statusCode = 200, headers = json_headers, body = json_dumps doc\<rparr>)
     \<and> (open_materials env = Inl (FileNotFoundError m) \<longrightarrow>
          get_materials_handler env =
            \<lparr>statusCode = 404, headers = json_headers,
             body = json_dumps (JObj [(''error'', JStr ''Materials file not found'')])\<rparr>)
     \<and> ((open_materials env = Inl e
           \<or> (open_materials env = Inr txt \<and> json_loads env txt = Inl e))
          \<and> (\<forall>m'. e \<noteq> FileNotFoundError m') \<longrightarrow>
          get_materials_handler env =
            \<lparr>statusCode = 500, headers = json_headers,
             body = json_dumps
               (JObj [(''error'', JStr (''Error loading materials: '' @ str_exn e))])\<rparr>)"
proof -
  have route: "handler env ev srcs = (Inr (get_materials_handler env), srcs)"
    using assms by (simp add: handler_def)
  have ok: "open_materials env = Inr txt \<and> json_loads env txt = Inr doc \<longrightarrow>
          get_materials_handler env =
            \<lparr>statusCode = 200, headers = json_headers, body = json_dumps doc\<rparr>"
    by (simp add: get_materials_handler_def)
  have absent: "open_materials env = Inl (FileNotFoundError m) \<longrightarrow>
          get_materials_handler env =
            \<lparr>statusCode = 404, headers = json_headers,
             body = json_dumps (JObj [(''error'', JStr ''Materials file not found'')])\<rparr>"
    by (simp add: get_materials_handler_def)
  have other: "(open_materials env = Inl e
           \<or> (open_materials env = Inr txt \<and> json_loads env txt = Inl e))
          \<and> (\<forall>m'. e \<noteq> FileNotFoundError m') \<longrightarrow>
          get_materials_handler env =
            \<lparr>statusCode = 500, headers = json_headers,
             body = json_dumps
               (JObj [(''error'', JStr (''Error loading materials: '' @ str_exn e))])\<rparr>"
    by (cases e) (auto simp: get_materials_handler_def)
  from route ok absent other show ?thesis by blast
qed

theorem materials_endpoint_witness:
  "get_path materials_event = JStr ''/materials''
   \<and> str_contains ''/materials'' ''/materials''
   \<and> get_method materials_event = Inr (JStr ''GET'')
   \<and> handler example_env materials_event [stale_passage] =
       (Inr \<lparr>statusCode = 200, headers = json_headers, body = json_dumps example_catalog\<rparr>,
        [stale_passage])
   \<and> handler (example_env\<lparr>open_materials := Inl (FileNotFoundError ''No such file'')\<rparr>)
       materials_event [stale_passage] =
       (Inr \<lparr>statusCode = 404, headers = json_headers,
             body = json_dumps (JObj [(''error'', JStr ''Materials file not found'')])\<rparr>,
        [stale_passage])
   \<and> handler (example_env\<lparr>open_materials := Inr ''not json''\<rparr>)
       materials_event [stale_passage] =
       (Inr \<lparr>statusCode = 500, headers = json_headers,
             body = json_dumps
               (JObj [(''error'', JStr ''Error loading materials: Expecting value'')])\<rparr>,
        [stale_passage])"
proof -
  let ?e2 = "example_env\<lparr>open_materials := Inl (FileNotFoundError ''No such file'')\<rparr>"
  let ?e3 = "example_env\<lparr>open_materials := Inr ''not json''\<rparr>"
  have s: "str_contains ''/materials'' ''/materials''" by simp
  note ep = materials_endpoint[OF example_materials_path s example_materials_method]
  have o1: "open_materials example_env = Inr example_catalog_text
      \<and> json_loads example_env example_catalog_text = Inr example_catalog"
    by (simp add: example_env_def example_catalog_text_def example_body_text_def dquote_def)
  have o2: "open_materials ?e2 = Inl (FileNotFoundError ''No such file'')" by simp
  have o3: "(open_materials ?e3 = Inl (Exception ''Expecting value'')
        \<or> (open_materials ?e3 = Inr ''not json''
            \<and> json_loads ?e3 ''not json'' = Inl (Exception ''Expecting value'')))
      \<and> (\<forall>m'. Exception ''Expecting value'' \<noteq> FileNotFoundError m')"
    by (simp add: example_env_def example_catalog_text_def example_body_text_def dquote_def)
  have c1: "handler example_env materials_event [stale_passage] =
       (Inr \<lparr>statusCode = 200, headers = json_headers, body = json_dumps example_catalog\<rparr>,
        [stale_passage])"
    using ep[of example_env "[stale_passage]" example_catalog_text example_catalog] o1 by simp
  have c2: "handler ?e2 materials_event [stale_passage] =
       (Inr \<lparr>statusCode = 404, headers = json_headers,
             body = json_dumps (JObj [(''error'', JStr ''Materials file not found'')])\<rparr>,
        [stale_passage])"
    using ep[of ?e2 "[stale_passage]" _ _ "''No such file''"] o2 by simp
  have c3: "handler ?e3 materials_event [stale_passage] =
       (Inr \<lparr>statusCode = 500, headers = json_headers,
             body = json_dumps
               (JObj [(''error'', JStr ''Error loading materials: Expecting value'')])\<rparr>,
        [stale_passage])"
    using ep[of ?e3 "[stale_passage]" "''not json''" _ _ "Exception ''Expecting value''"] o3
    by simp
  from example_materials_path s example_materials_method c1 c2 c3 show ?thesis by blast
qed

text \<open>
  C8 (counterexample). The response to an OPTIONS request has no \<open>Content-Type\<close> header.
\<close>

theorem options_content_type_counterexample:
  "fst (handler example_env options_event []) = Inr options_response
   \<and> map_of (headers options_response) ''Content-Type'' = None"
  by (simp add: example_options) (simp add: options_response_def)

text \<open>
  C8 (amended). Every response the handler returns has the header
  \<open>Access-Control-Allow-Origin: *\<close>. The response to an OPTIONS request is the preflight
  response: status 200, empty body, the allowed methods \<open>GET, POST, OPTIONS\<close>, the allowed
  header \<open>Content-Type\<close>, a max-age, and no \<open>Content-Type\<close> header. Every other response
  (materials success and errors, chat success, chat 400 and 500) also has
  \<open>Content-Type: application/json\<close>.
\<close>

theorem response_headers:
  assumes "handler env ev srcs = (Inr r, srcs')"
  shows "map_of (headers r) ''Access-Control-Allow-Origin'' = Some ''*''
     \<and> (if get_method ev = Inr (JStr ''OPTIONS'')
         then r = options_response
              \<and> statusCode r = 200 \<and> body r = Text []
              \<and> map_of (headers r) ''Access-Control-Allow-Methods'' = Some ''GET, POST, OPTIONS''
              \<and> map_of (headers r) ''Access-Control-Allow-Headers'' = Some ''Content-Type''
              \<and> map_of (headers r) ''Access-Control-Max-Age'' = Some ''86400''
              \<and> map_of (headers r) ''Content-Type'' = None
         else map_of (headers r) ''Content-Type'' = Some ''application/json'')"
proof -
  have jh: "headers r = json_headers \<Longrightarrow>
      map_of (headers r) ''Access-Control-Allow-Origin'' = Some ''*''
      \<and> map_of (headers r) ''Content-Type'' = Some ''application/json''"
    by (simp add: json_headers_def)
  from handler_cases[OF assms]
  consider (materials) "r = get_materials_handler env" "get_method ev = Inr (JStr ''GET'')"
    | (options) "r = options_response" "get_method ev = Inr (JStr ''OPTIONS'')"
    | (chat) "chat env ev srcs = (r, srcs')" "get_method ev \<noteq> Inr (JStr ''OPTIONS'')"
    by blast
  then show ?thesis
  proof cases
    case materials
    have "headers r = json_headers"
      using materials(1) materials_cases[of env] by (auto simp: headers_error_response)
    with jh materials(2) show ?thesis by simp
  next
    case options
    then show ?thesis by (simp add: options_response_def)
  next
    case chat
    have "headers r = json_headers"
      using chat_cases[OF chat(1)]
      by (auto simp: headers_error_response headers_success_response)
    with jh chat(2) show ?thesis by simp
  qed
qed

theorem response_headers_witness:
  "handler example_env options_event [stale_passage] = (Inr options_response, [stale_passage])
   \<and> get_method options_event = Inr (JStr ''OPTIONS'')
   \<and> map_of (headers options_response) ''Access-Control-Allow-Origin'' = Some ''*''
   \<and> map_of (headers options_response) ''Access-Control-Allow-Methods'' = Some ''GET, POST, OPTIONS''
   \<and> map_of (headers options_response) ''Content-Type'' = None
   \<and> handler example_env chat_event [stale_passage] =
       (Inr (success_response example_output (JStr ''default-session'')
               (map passage_of example_results)),
        map passage_of example_results)
   \<and> map_of (headers (success_response example_output (JStr ''default-session'')
                        (map passage_of example_results))) ''Content-Type'' =
       Some ''application/json''
   \<and> map_of (headers (success_response example_output (JStr ''default-session'')
                        (map passage_of example_results))) ''Access-Control-Allow-Origin'' =
       Some ''*''"
proof -
  have h1: "handler example_env options_event [stale_passage] =
      (Inr options_response, [stale_passage])" by (rule example_options)
  have h2: "handler example_env chat_event [stale_passage] =
       (Inr (success_response example_output (JStr ''default-session'')
               (map passage_of example_results)),
        map passage_of example_results)" by (rule example_chat)
  have m: "get_method chat_event \<noteq> Inr (JStr ''OPTIONS'')"
    using example_routes by (rule routes_to_chat_method)
  from response_headers[OF h1] response_headers[OF h2] h1 h2 m example_options_method
  show ?thesis by simp
qed

end
